theory Spec2Isabelle
  imports Main "HOL-Library.Word" "HOL-Library.Sublist"
begin

section \<open>DebugAngel: the debug log writer of Utilities/Log/DebugAngel.cpp\<close>

text \<open>
  The source file holds four free functions: \<open>WriteDebugInfoStr\<close>, \<open>DebugAngel_Write\<close>,
  \<open>GetCurrentTimeWrapped\<close> and \<open>DebugAngel_HexWrite\<close>. They call the C library
  (\<open>strlen\<close>, \<open>strcat\<close>, \<open>strcpy\<close>, \<open>strftime\<close>, \<open>time\<close>, \<open>localtime\<close>) and the
  Win32 API (\<open>CreateFile\<close>, \<open>SetFilePointer\<close>, \<open>WriteFile\<close>, \<open>CloseHandle\<close>,
  \<open>wsprintf\<close>, \<open>wvsprintf\<close>). The library calls are modelled from their documented
  behaviour in the first two subsections; the four functions of the source follow.
\<close>

subsection \<open>C strings in fixed-size character arrays\<close>

text \<open>
  A \<open>char\<close> array is modelled by the characters it holds; the terminating NUL is implicit.
  A write that would not fit the array, terminator included, is undefined behaviour in C:
  the model returns an error value that names the array. The \<open>int\<close> parameters and the
  loop counter are modelled by unbounded integers: the counter stays below \<open>iSize\<close>, so
  no 32-bit operation of the source wraps.
\<close>

type_synonym byte = "8 word"

datatype error =
    BufferOverflow string
  | ReadPastBuffer
  | IndeterminateTimeStr

definition bindE :: "error + 'a \<Rightarrow> ('a \<Rightarrow> error + 'b) \<Rightarrow> error + 'b" where
  "bindE m f = (case m of Inl e \<Rightarrow> Inl e | Inr x \<Rightarrow> f x)"

definition NUL :: char where
  "NUL = CHR 0x00"

definition c_str :: "string \<Rightarrow> string" where
  \<comment> \<open>the C string stored in an array: everything before the first NUL\<close>
  "c_str s = takeWhile (\<lambda>c. c \<noteq> NUL) s"

definition strlen :: "string \<Rightarrow> nat" where
  "strlen s = length (c_str s)"

definition strcat :: "string \<Rightarrow> nat \<Rightarrow> string \<Rightarrow> string \<Rightarrow> error + string" where
  \<comment> \<open>\<open>strcat(dst, src)\<close> into the array named \<open>name\<close> of \<open>cap\<close> characters: the last
      character written is the terminator, at index \<open>strlen dst + strlen src\<close>\<close>
  "strcat name cap dst src =
     (if strlen dst + strlen src < cap then Inr (c_str dst @ c_str src)
      else Inl (BufferOverflow name))"

definition strcpy :: "string \<Rightarrow> nat \<Rightarrow> string \<Rightarrow> error + string" where
  "strcpy name cap src =
     (if strlen src < cap then Inr (c_str src) else Inl (BufferOverflow name))"

subsection \<open>Number rendering: \<open>wsprintf\<close> and \<open>strftime\<close>\<close>

definition upper_hex_digit :: "nat \<Rightarrow> char" where
  "upper_hex_digit d = ''0123456789ABCDEF'' ! d"

definition dec_digit :: "nat \<Rightarrow> char" where
  "dec_digit d = ''0123456789'' ! d"

fun hex_nat :: "nat \<Rightarrow> string" where
  "hex_nat n = (if n < 16 then [upper_hex_digit n]
                else hex_nat (n div 16) @ [upper_hex_digit (n mod 16)])"

fun dec_nat :: "nat \<Rightarrow> string" where
  "dec_nat n = (if n < 10 then [dec_digit n]
                else dec_nat (n div 10) @ [dec_digit (n mod 10)])"

declare hex_nat.simps [simp del]
declare dec_nat.simps [simp del]

definition dec_int :: "int \<Rightarrow> string" where
  "dec_int i = (if i < 0 then CHR ''-'' # dec_nat (nat (- i)) else dec_nat (nat i))"

definition pad0 :: "nat \<Rightarrow> string \<Rightarrow> string" where
  \<comment> \<open>the \<open>0\<close> flag with a minimum field width\<close>
  "pad0 width s = replicate (width - length s) (CHR ''0'') @ s"

fun wsprintf_text :: "string \<Rightarrow> nat \<Rightarrow> string" where
  \<comment> \<open>the text \<open>wsprintf\<close> renders for a format with the single conversion \<open>%02X\<close>
      and one unsigned argument; every other character is copied\<close>
  "wsprintf_text (a # b # c # d # fs) v =
     (if a = CHR ''%'' \<and> b = CHR ''0'' \<and> c = CHR ''2'' \<and> d = CHR ''X''
      then pad0 2 (hex_nat v) @ wsprintf_text fs v
      else a # wsprintf_text (b # c # d # fs) v)"
| "wsprintf_text (a # fs) v = a # wsprintf_text fs v"
| "wsprintf_text [] v = []"

definition wsprintf :: "string \<Rightarrow> nat \<Rightarrow> string \<Rightarrow> nat \<Rightarrow> error + string" where
  \<comment> \<open>\<open>wsprintf(dst, fmt, v)\<close> into the array named \<open>name\<close> of \<open>cap\<close> characters\<close>
  "wsprintf name cap fmt v =
     (let out = wsprintf_text fmt v
      in if length out < cap then Inr out else Inl (BufferOverflow name))"

record tm =
  tm_sec :: int
  tm_min :: int
  tm_hour :: int
  tm_mday :: int
  tm_mon :: int
  tm_year :: int

definition strftime_conv :: "char \<Rightarrow> tm \<Rightarrow> string" where
  \<comment> \<open>the conversions the source uses: \<open>%Y %m %d %H %M %S\<close>\<close>
  "strftime_conv c t =
     (if c = CHR ''Y'' then dec_int (1900 + tm_year t)
      else if c = CHR ''m'' then pad0 2 (dec_int (tm_mon t + 1))
      else if c = CHR ''d'' then pad0 2 (dec_int (tm_mday t))
      else if c = CHR ''H'' then pad0 2 (dec_int (tm_hour t))
      else if c = CHR ''M'' then pad0 2 (dec_int (tm_min t))
      else if c = CHR ''S'' then pad0 2 (dec_int (tm_sec t))
      else [CHR ''%'', c])"

fun strftime_text :: "string \<Rightarrow> tm \<Rightarrow> string" where
  "strftime_text (a # b # fs) t =
     (if a = CHR ''%'' then strftime_conv b t @ strftime_text fs t
      else a # strftime_text (b # fs) t)"
| "strftime_text [a] t = [a]"
| "strftime_text [] t = []"

definition strftime :: "nat \<Rightarrow> string \<Rightarrow> tm \<Rightarrow> error + string" where
  \<comment> \<open>\<open>strftime(dst, maxsize, fmt, t)\<close> never writes past \<open>maxsize\<close>; when the text does
      not fit it returns 0 and leaves the array indeterminate\<close>
  "strftime maxsize fmt t =
     (let out = strftime_text fmt t
      in if length out < maxsize then Inr out else Inl IndeterminateTimeStr)"

definition calendar_ok :: "tm \<Rightarrow> bool" where
  \<comment> \<open>the ranges the C standard gives the calendar fields of a \<open>struct tm\<close>\<close>
  "calendar_ok t \<longleftrightarrow>
     0 \<le> tm_sec t \<and> tm_sec t \<le> 60 \<and> 0 \<le> tm_min t \<and> tm_min t \<le> 59 \<and>
     0 \<le> tm_hour t \<and> tm_hour t \<le> 23 \<and> 1 \<le> tm_mday t \<and> tm_mday t \<le> 31 \<and>
     0 \<le> tm_mon t \<and> tm_mon t \<le> 11"

definition four_digit_year :: "tm \<Rightarrow> bool" where
  \<comment> \<open>\<open>tm_year\<close> counts from 1900\<close>
  "four_digit_year t \<longleftrightarrow> 1000 \<le> 1900 + tm_year t \<and> 1900 + tm_year t \<le> 9999"

definition tm_ok :: "tm \<Rightarrow> bool" where
  "tm_ok t \<longleftrightarrow> calendar_ok t \<and> four_digit_year t"

typedef local_tm = "{t :: tm. calendar_ok t}"
  morphisms tm_of make_tm
  by (rule exI [of _ "\<lparr>tm_sec = 0, tm_min = 0, tm_hour = 0, tm_mday = 1, tm_mon = 0,
        tm_year = 70\<rparr>"]) (simp add: calendar_ok_def)

subsection \<open>The file system and the Win32 file calls\<close>

text \<open>
  The state the functions act on: the contents of the files by path, which paths the
  operating system lets this process open for writing, the system clock in seconds since
  the epoch, and the conversion to broken-down local time in the time zone of the process.
  The conversion returns a \<open>local_tm\<close>, a \<open>struct tm\<close> whose calendar fields are in
  range; the year is whatever the clock and the zone make it.
  A write on an open handle is taken to store every byte it is given.
\<close>

record world =
  files :: "string \<rightharpoonup> string"
  can_open :: "string \<Rightarrow> bool"
  clock :: int
  time_zone :: "int \<Rightarrow> local_tm"

definition time :: "world \<Rightarrow> int" where
  "time w = clock w"

definition localtime :: "world \<Rightarrow> int \<Rightarrow> tm" where
  "localtime w t = tm_of (time_zone w t)"

definition local_time :: "world \<Rightarrow> tm" where
  \<comment> \<open>the local time a call made in state \<open>w\<close> reads\<close>
  "local_time w = localtime w (time w)"

definition content :: "world \<Rightarrow> string \<Rightarrow> string" where
  "content w name = (case files w name of None \<Rightarrow> [] | Some c \<Rightarrow> c)"

datatype HANDLE = INVALID_HANDLE_VALUE | FileHandle string nat

datatype move_method = FILE_BEGIN | FILE_CURRENT | FILE_END

definition CreateFile :: "world \<Rightarrow> string \<Rightarrow> HANDLE \<times> world" where
  \<comment> \<open>\<open>GENERIC_WRITE\<close>, \<open>OPEN_ALWAYS\<close>: opens the file as it is, creates it empty when it
      does not exist; the file pointer of the new handle is 0\<close>
  "CreateFile w name =
     (if can_open w name
      then (FileHandle name 0,
            (case files w name of
               None \<Rightarrow> w\<lparr>files := (files w)(name \<mapsto> [])\<rparr>
             | Some c \<Rightarrow> w))
      else (INVALID_HANDLE_VALUE, w))"

definition SetFilePointer ::
  "world \<Rightarrow> HANDLE \<Rightarrow> int \<Rightarrow> int option \<Rightarrow> move_method \<Rightarrow> HANDLE" where
  \<comment> \<open>\<open>lpDistanceToMoveHigh\<close> is \<open>None\<close> for \<open>NULL\<close>: the distance is then the 32-bit
      \<open>lDistanceToMove\<close> alone, and the call fails when the new position does not fit 32
      bits. It fails on a negative position too. A call that fails leaves the file pointer
      where it was.\<close>
  "SetFilePointer w h lDistanceToMove lpDistanceToMoveHigh dwMoveMethod =
     (case h of
        INVALID_HANDLE_VALUE \<Rightarrow> INVALID_HANDLE_VALUE
      | FileHandle name pos \<Rightarrow>
          (let base = (case dwMoveMethod of
                         FILE_BEGIN \<Rightarrow> 0
                       | FILE_CURRENT \<Rightarrow> int pos
                       | FILE_END \<Rightarrow> int (length (content w name)));
               dist = (case lpDistanceToMoveHigh of
                         None \<Rightarrow> lDistanceToMove
                       | Some high \<Rightarrow> high * 4294967296 + lDistanceToMove mod 4294967296);
               new = base + dist
           in if new < 0 \<or> (lpDistanceToMoveHigh = None \<and> 4294967296 \<le> new)
              then FileHandle name pos
              else FileHandle name (nat new)))"

definition WriteFile :: "world \<Rightarrow> HANDLE \<Rightarrow> string \<Rightarrow> nat \<Rightarrow> world \<times> HANDLE" where
  \<comment> \<open>writes the first \<open>n\<close> characters of \<open>buf\<close> at the file pointer, over what is there,
      and advances the pointer; on an invalid handle it fails and writes nothing\<close>
  "WriteFile w h buf n =
     (case h of
        INVALID_HANDLE_VALUE \<Rightarrow> (w, INVALID_HANDLE_VALUE)
      | FileHandle name pos \<Rightarrow>
          (let old = content w name;
               data = take n buf;
               new = take pos old @ replicate (pos - length old) NUL @ data
                       @ drop (pos + length data) old
           in (w\<lparr>files := (files w)(name \<mapsto> new)\<rparr>, FileHandle name (pos + length data))))"

definition CloseHandle :: "world \<Rightarrow> HANDLE \<Rightarrow> world" where
  "CloseHandle w h = w"

subsection \<open>The functions of DebugAngel.cpp\<close>

definition WriteDebugInfoStr :: "world \<Rightarrow> string \<Rightarrow> string \<Rightarrow> world" where
  "WriteDebugInfoStr w lpszFileName lpszToWrite =
     (let (hFile, w1) = CreateFile w lpszFileName;
          hFile1 = SetFilePointer w1 hFile 0 None FILE_END;
          (w2, hFile2) = WriteFile w1 hFile1 lpszToWrite (strlen lpszToWrite)
      in CloseHandle w2 hFile2)"

definition DebugAngel_Write ::
  "(string \<Rightarrow> 'va \<Rightarrow> string) \<Rightarrow> world \<Rightarrow> string \<Rightarrow> string \<Rightarrow> 'va \<Rightarrow> error + world" where
  \<comment> \<open>\<open>wvsprintf\<close> is a parameter: the text the Win32 call renders from the format and the
      argument list \<open>va\<close>; it goes into \<open>char lpszBuffer[1024]\<close>, and a text that does not
      fit there with its terminator is outside the behaviour modelled\<close>
  "DebugAngel_Write wvsprintf w lpszFileName lpszFormat va =
     (let out = wvsprintf lpszFormat va
      in bindE (if length out < 1024 then Inr out else Inl (BufferOverflow ''lpszBuffer''))
           (\<lambda>lpszBuffer. Inr (WriteDebugInfoStr w lpszFileName lpszBuffer)))"

definition GetCurrentTimeWrapped :: "world \<Rightarrow> error + string" where
  "GetCurrentTimeWrapped w =
     (let currentTime = time w
      in strftime 64 ''[%Y-%m-%d %H:%M:%S] '' (localtime w currentTime))"

definition read_byte :: "byte list \<Rightarrow> int \<Rightarrow> error + byte" where
  \<comment> \<open>\<open>*pbySeek\<close> after \<open>j\<close> increments of \<open>pbySeek\<close>\<close>
  "read_byte pBuffer j =
     (if 0 \<le> j \<and> nat j < length pBuffer then Inr (pBuffer ! nat j) else Inl ReadPastBuffer)"

function hex_loop :: "byte list \<Rightarrow> int \<Rightarrow> int \<Rightarrow> string \<Rightarrow> error + string" where
  \<comment> \<open>the \<open>for\<close> loop of \<open>DebugAngel_HexWrite\<close>, from index \<open>j\<close> with \<open>lpszStr\<close> so far\<close>
  "hex_loop pBuffer iSize j lpszStr =
     (if j < iSize then
        (case read_byte pBuffer j of
           Inl e \<Rightarrow> Inl e
         | Inr b \<Rightarrow>
            (case wsprintf ''lpszTemp'' 16 ''0x%02X '' (unat b) of
               Inl e \<Rightarrow> Inl e
             | Inr lpszTemp \<Rightarrow>
                (case strcat ''lpszStr'' 1024 lpszStr lpszTemp of
                   Inl e \<Rightarrow> Inl e
                 | Inr lpszStr' \<Rightarrow> hex_loop pBuffer iSize (j + 1) lpszStr')))
      else Inr lpszStr)"
  by pat_completeness auto
termination
  by (relation "measure (\<lambda>(pBuffer, iSize, j, lpszStr). nat (iSize - j))") auto

declare hex_loop.simps [simp del]

definition select_logType :: "int \<Rightarrow> error + string" where
  \<comment> \<open>the \<open>if (sender == 1)\<close> statement, writing \<open>char logType[10]\<close>\<close>
  "select_logType sender =
     (if sender = 1 then strcpy ''logType'' 10 ''C->S ''
      else strcpy ''logType'' 10 ''S->C '')"

definition CRLF :: string where
  "CRLF = [CHR 0x0D, CHR 0x0A]"

definition DebugAngel_HexWrite ::
  "world \<Rightarrow> string \<Rightarrow> byte list \<Rightarrow> int \<Rightarrow> int \<Rightarrow> error + world" where
  "DebugAngel_HexWrite w lpszFileName pBuffer iSize sender =
     (let (hFile, w1) = CreateFile w lpszFileName;
          hFile1 = SetFilePointer w1 hFile 0 None FILE_END;
          lpszStr0 = []
      in bindE (GetCurrentTimeWrapped w1) (\<lambda>timeStr.
         bindE (strcat ''lpszStr'' 1024 lpszStr0 timeStr) (\<lambda>lpszStr1.
         bindE (select_logType sender) (\<lambda>logType.
         bindE (strcat ''lpszStr'' 1024 lpszStr1 logType) (\<lambda>lpszStr2.
         bindE (hex_loop pBuffer iSize 0 lpszStr2) (\<lambda>lpszStr3.
         bindE (strcat ''lpszStr'' 1024 lpszStr3 CRLF) (\<lambda>lpszStr4.
           (let (w2, hFile2) = WriteFile w1 hFile1 lpszStr4 (strlen lpszStr4)
            in Inr (CloseHandle w2 hFile2)))))))))"

subsection \<open>The records of the log file, as the specification lays them out\<close>

text \<open>
  The specification describes a hex-dump record as
  \<^verbatim>\<open>[YYYY-MM-DD HH:MM:SS] <C->S |S->C ><0xAA ><0xBB >...\r\n\<close>
  with zero-padded decimal fields and two upper-case hexadecimal digits per byte, and a
  write as an append to the prior contents of the file. These definitions follow the
  specification's words; the theorems below compare the functions of the source with them.
\<close>

definition two_digits :: "nat \<Rightarrow> string" where
  "two_digits n = [dec_digit (n div 10), dec_digit (n mod 10)]"

definition four_digits :: "nat \<Rightarrow> string" where
  "four_digits n = [dec_digit (n div 1000), dec_digit (n div 100 mod 10),
                    dec_digit (n div 10 mod 10), dec_digit (n mod 10)]"

definition bracketed_stamp :: "tm \<Rightarrow> string" where
  "bracketed_stamp t =
     ''['' @ four_digits (nat (1900 + tm_year t)) @ ''-'' @ two_digits (nat (tm_mon t + 1))
       @ ''-'' @ two_digits (nat (tm_mday t)) @ '' '' @ two_digits (nat (tm_hour t))
       @ '':'' @ two_digits (nat (tm_min t)) @ '':'' @ two_digits (nat (tm_sec t)) @ '']''"

definition timestamp_layout :: "tm \<Rightarrow> string" where
  "timestamp_layout t = bracketed_stamp t @ '' ''"

definition hex_token :: "byte \<Rightarrow> string" where
  "hex_token b = [CHR ''0'', CHR ''x'', upper_hex_digit (unat b div 16),
                  upper_hex_digit (unat b mod 16), CHR '' '']"

definition direction_tag :: "int \<Rightarrow> string" where
  "direction_tag sender = (if sender = 1 then ''C->S '' else ''S->C '')"

definition hex_record :: "tm \<Rightarrow> int \<Rightarrow> byte list \<Rightarrow> string" where
  "hex_record t sender bs = timestamp_layout t @ direction_tag sender @ concat (map hex_token bs) @ CRLF"

definition append_record :: "world \<Rightarrow> string \<Rightarrow> string \<Rightarrow> world" where
  "append_record w name r =
     (if can_open w name then w\<lparr>files := (files w)(name \<mapsto> content w name @ r)\<rparr> else w)"

text \<open>
  Two parts that the write functions share. The first is what opening, seeking and writing
  do to the file with a text \<open>r\<close>: when the end of the file is below \<open>2\<^sup>3\<^sup>2\<close> the seek
  succeeds and \<open>r\<close> goes after the prior contents; otherwise the seek fails, the pointer
  stays at 0 and \<open>r\<close> goes over the first bytes of the file. The second is the part of
  \<open>DebugAngel_HexWrite\<close> between \<open>SetFilePointer\<close> and \<open>WriteFile\<close>, which touches no
  file: the assembly of the line in \<open>lpszStr\<close>, at local time \<open>t\<close>.
\<close>

definition store_record :: "world \<Rightarrow> string \<Rightarrow> string \<Rightarrow> world" where
  "store_record w name r =
     (if can_open w name
      then (if length (content w name) < 4294967296
            then w\<lparr>files := (files w)(name \<mapsto> content w name @ r)\<rparr>
            else w\<lparr>files := (files w)(name \<mapsto> r @ drop (length r) (content w name))\<rparr>)
      else w)"

definition assemble_line :: "tm \<Rightarrow> byte list \<Rightarrow> int \<Rightarrow> int \<Rightarrow> error + string" where
  "assemble_line t pBuffer iSize sender =
     bindE (strftime 64 ''[%Y-%m-%d %H:%M:%S] '' t) (\<lambda>timeStr.
     bindE (strcat ''lpszStr'' 1024 [] timeStr) (\<lambda>lpszStr1.
     bindE (select_logType sender) (\<lambda>logType.
     bindE (strcat ''lpszStr'' 1024 lpszStr1 logType) (\<lambda>lpszStr2.
     bindE (hex_loop pBuffer iSize 0 lpszStr2) (\<lambda>lpszStr3.
     strcat ''lpszStr'' 1024 lpszStr3 CRLF)))))"

subsection \<open>Callers: one call, and a sequence of calls on one file\<close>

text \<open>
  A caller makes one of three calls on a log file; a sequential caller makes a list of
  them, each at its own reading of the clock.
\<close>

datatype 'va call =
    StrCall string
  | FormatCall string 'va
  | HexCall "byte list" int int

fun perform :: "(string \<Rightarrow> 'va \<Rightarrow> string) \<Rightarrow> world \<Rightarrow> string \<Rightarrow> 'va call \<Rightarrow> error + world" where
  "perform wvsprintf w name (StrCall s) = Inr (WriteDebugInfoStr w name s)"
| "perform wvsprintf w name (FormatCall fmt va) = DebugAngel_Write wvsprintf w name fmt va"
| "perform wvsprintf w name (HexCall pBuffer iSize sender) =
     DebugAngel_HexWrite w name pBuffer iSize sender"

fun run_calls ::
  "(string \<Rightarrow> 'va \<Rightarrow> string) \<Rightarrow> world \<Rightarrow> string \<Rightarrow> (int \<times> 'va call) list \<Rightarrow> error + world" where
  "run_calls wvsprintf w name [] = Inr w"
| "run_calls wvsprintf w name ((t, c) # cs) =
     bindE (perform wvsprintf (w\<lparr>clock := t\<rparr>) name c)
       (\<lambda>w'. run_calls wvsprintf w' name cs)"

fun record_of ::
  "(string \<Rightarrow> 'va \<Rightarrow> string) \<Rightarrow> (int \<Rightarrow> local_tm) \<Rightarrow> int \<times> 'va call \<Rightarrow> string" where
  \<comment> \<open>the record the specification gives a call made at clock reading \<open>t\<close> in time
      zone \<open>tz\<close>\<close>
  "record_of wvsprintf tz (t, StrCall s) = c_str s"
| "record_of wvsprintf tz (t, FormatCall fmt va) = c_str (wvsprintf fmt va)"
| "record_of wvsprintf tz (t, HexCall pBuffer iSize sender) =
     hex_record (tm_of (tz t)) sender (take (nat iSize) pBuffer)"

fun well_formed_call :: "(int \<Rightarrow> local_tm) \<Rightarrow> int \<times> 'va call \<Rightarrow> bool" where
  \<comment> \<open>a hex dump reads \<open>iSize\<close> bytes that the buffer holds, in a year of four digits\<close>
  "well_formed_call tz (t, HexCall pBuffer iSize sender) =
     (four_digit_year (tm_of (tz t)) \<and> nat iSize \<le> length pBuffer)"
| "well_formed_call tz (t, c) = True"

subsection \<open>Test data\<close>

definition tm_2024 :: tm where
  "tm_2024 = \<lparr>tm_sec = 5, tm_min = 4, tm_hour = 3, tm_mday = 2, tm_mon = 0, tm_year = 124\<rparr>"

definition minute_0304 :: "int \<Rightarrow> local_tm" where
  \<comment> \<open>UTC during the minute 2024-01-02 03:04, which starts at 1704164640\<close>
  "minute_0304 t = make_tm (tm_2024\<lparr>tm_sec := (t - 1704164640) mod 60\<rparr>)"



definition log_world :: world where
  "log_world = \<lparr>files = [''log.txt'' \<mapsto> ''old''], can_open = (\<lambda>p. p = ''log.txt''),
                 clock = 1704164645, time_zone = minute_0304\<rparr>"



definition big_log_world :: world where
  \<comment> \<open>the log has grown to \<open>2\<^sup>3\<^sup>2\<close> bytes\<close>
  "big_log_world = log_world\<lparr>files := [''log.txt'' \<mapsto> replicate 4294967296 (CHR ''a'')]\<rparr>"

definition plain_text :: "string \<Rightarrow> unit \<Rightarrow> string" where
  \<comment> \<open>what wvsprintf renders for a format without conversions: the format itself\<close>
  "plain_text fmt va = fmt"

section \<open>Auxiliary facts\<close>

subsection \<open>Strings and digits\<close>

lemma c_str_id: "NUL \<notin> set s \<Longrightarrow> c_str s = s"
  by (auto simp add: c_str_def)

lemma strlen_id: "NUL \<notin> set s \<Longrightarrow> strlen s = length s"
  by (simp add: strlen_def c_str_id)

lemma dec_digit_set: "d < 10 \<Longrightarrow> dec_digit d \<in> set ''0123456789''"
  unfolding dec_digit_def by (rule nth_mem) simp

lemma upper_hex_digit_set: "d < 16 \<Longrightarrow> upper_hex_digit d \<in> set ''0123456789ABCDEF''"
  unfolding upper_hex_digit_def by (rule nth_mem) simp

lemma dec_digit_not_NUL: "d < 10 \<Longrightarrow> dec_digit d \<noteq> NUL"
  using dec_digit_set [of d] by (auto simp: NUL_def)

lemma upper_hex_digit_not_NUL: "d < 16 \<Longrightarrow> upper_hex_digit d \<noteq> NUL"
  using upper_hex_digit_set [of d] by (auto simp: NUL_def)

lemma dec_nat_1: "n < 10 \<Longrightarrow> dec_nat n = [dec_digit n]"
  by (simp add: dec_nat.simps [of n])

lemma dec_nat_2: "10 \<le> n \<Longrightarrow> n < 100 \<Longrightarrow> dec_nat n = two_digits n"
  by (simp add: dec_nat.simps [of n] dec_nat_1 two_digits_def)

lemma pad0_dec_nat: "n < 100 \<Longrightarrow> pad0 2 (dec_nat n) = two_digits n"
  by (cases "n < 10") (simp_all add: dec_nat_1 dec_nat_2 pad0_def two_digits_def dec_digit_def)

lemma dec_nat_3: "100 \<le> n \<Longrightarrow> n < 1000 \<Longrightarrow>
    dec_nat n = [dec_digit (n div 100), dec_digit (n div 10 mod 10), dec_digit (n mod 10)]"
  by (simp add: dec_nat.simps [of n] dec_nat_2 two_digits_def div_mult2_eq [symmetric])

lemma dec_nat_4: "1000 \<le> n \<Longrightarrow> n < 10000 \<Longrightarrow> dec_nat n = four_digits n"
  by (simp add: dec_nat.simps [of n] dec_nat_3 four_digits_def div_mult2_eq [symmetric])

lemma hex_nat_1: "n < 16 \<Longrightarrow> hex_nat n = [upper_hex_digit n]"
  by (simp add: hex_nat.simps [of n])

lemma pad0_hex_nat: "v < 256 \<Longrightarrow> pad0 2 (hex_nat v) = [upper_hex_digit (v div 16), upper_hex_digit (v mod 16)]"
  by (cases "v < 16") (simp_all add: hex_nat_1 hex_nat.simps [of v] pad0_def upper_hex_digit_def)

lemma wsprintf_text_token: "wsprintf_text ''0x%02X '' (unat (b::byte)) = hex_token b"
proof -
  have "unat b < 256" using unsigned_less [of b] by simp
  then show ?thesis by (simp add: pad0_hex_nat hex_token_def)
qed

lemma strftime_text_layout:
  assumes "tm_ok t"
  shows "strftime_text ''[%Y-%m-%d %H:%M:%S] '' t = timestamp_layout t"
proof -
  have "1000 \<le> nat (1900 + tm_year t)" and "nat (1900 + tm_year t) < 10000"
    and "0 \<le> 1900 + tm_year t"
    using assms unfolding tm_ok_def four_digit_year_def by linarith+
  then have y: "dec_int (1900 + tm_year t) = four_digits (nat (1900 + tm_year t))"
    by (simp add: dec_int_def dec_nat_4)
  have f: "0 \<le> i \<Longrightarrow> i < 100 \<Longrightarrow> pad0 2 (dec_int i) = two_digits (nat i)" for i
    by (simp add: dec_int_def pad0_dec_nat)
  show ?thesis
    using assms
    by (simp add: strftime_conv_def y f tm_ok_def calendar_ok_def timestamp_layout_def
          bracketed_stamp_def)
qed

lemma length_bracketed_stamp: "length (bracketed_stamp t) = 21"
  by (simp add: bracketed_stamp_def two_digits_def four_digits_def)

lemma length_timestamp_layout: "length (timestamp_layout t) = 22"
  by (simp add: timestamp_layout_def length_bracketed_stamp)

lemma NUL_notin_hex_token: "NUL \<notin> set (hex_token b)"
proof -
  have "unat b < 256" using unsigned_less [of b] by simp
  then have "unat b div 16 < 16" and "unat b mod 16 < 16" by simp_all
  then show ?thesis
    using upper_hex_digit_not_NUL [of "unat b div 16"] upper_hex_digit_not_NUL [of "unat b mod 16"]
    by (auto simp add: hex_token_def NUL_def)
qed

lemma length_hex_token: "length (hex_token b) = 5"
  by (simp add: hex_token_def)

lemma hex_token_upper_case:
  "\<exists>h l. hex_token b = [CHR ''0'', CHR ''x'', h, l, CHR '' ''] \<and>
     h \<in> set ''0123456789ABCDEF'' \<and> l \<in> set ''0123456789ABCDEF''"
proof -
  have "unat b < 256" using unsigned_less [of b] by simp
  then have "unat b div 16 < 16" and "unat b mod 16 < 16" by simp_all
  then show ?thesis
    unfolding hex_token_def by (blast intro: upper_hex_digit_set)
qed

lemma NUL_notin_two_digits:
  assumes "n < 100"
  shows "NUL \<notin> set (two_digits n)"
proof -
  have "n div 10 < 10" using assms by arith
  then show ?thesis
    using dec_digit_not_NUL [of "n div 10"] dec_digit_not_NUL [of "n mod 10"]
    by (auto simp add: two_digits_def)
qed

lemma NUL_notin_four_digits:
  assumes "n < 10000"
  shows "NUL \<notin> set (four_digits n)"
proof -
  have "n div 1000 < 10" using assms by arith
  then show ?thesis
    using dec_digit_not_NUL [of "n div 1000"] dec_digit_not_NUL [of "n div 100 mod 10"]
      dec_digit_not_NUL [of "n div 10 mod 10"] dec_digit_not_NUL [of "n mod 10"]
    by (auto simp add: four_digits_def)
qed

lemma NUL_notin_timestamp_layout:
  assumes "tm_ok t"
  shows "NUL \<notin> set (timestamp_layout t)"
proof -
  have "nat (1900 + tm_year t) < 10000" "nat (tm_mon t + 1) < 100" "nat (tm_mday t) < 100"
    "nat (tm_hour t) < 100" "nat (tm_min t) < 100" "nat (tm_sec t) < 100"
    using assms unfolding tm_ok_def calendar_ok_def four_digit_year_def by linarith+
  then show ?thesis
    by (simp add: timestamp_layout_def bracketed_stamp_def NUL_notin_two_digits
          NUL_notin_four_digits)
       (simp add: NUL_def)
qed

lemma NUL_notin_direction_tag: "NUL \<notin> set (direction_tag sender)"
  by (simp add: direction_tag_def NUL_def)

lemma NUL_notin_CRLF: "NUL \<notin> set CRLF"
  by (simp add: CRLF_def NUL_def)

subsection \<open>Opening, seeking and writing\<close>

lemma take_strlen: "take (strlen s) s = c_str s"
  by (simp add: strlen_def c_str_def takeWhile_eq_take [symmetric])

lemma GetCurrentTimeWrapped_eq:
  "GetCurrentTimeWrapped w = strftime 64 ''[%Y-%m-%d %H:%M:%S] '' (local_time w)"
  by (simp add: GetCurrentTimeWrapped_def local_time_def Let_def del: strftime_text.simps)

lemma local_time_files [simp]: "local_time (w\<lparr>files := f\<rparr>) = local_time w"
  by (simp add: local_time_def localtime_def time_def)

lemma local_time_clock: "local_time (w\<lparr>clock := t\<rparr>) = tm_of (time_zone w t)"
  by (simp add: local_time_def localtime_def time_def)

lemma tm_ok_local_time: "four_digit_year (local_time w) \<Longrightarrow> tm_ok (local_time w)"
  using tm_of [of "time_zone w (clock w)"]
  by (simp add: tm_ok_def local_time_def localtime_def time_def)

lemma tm_ok_tm_of: "four_digit_year (tm_of x) \<Longrightarrow> tm_ok (tm_of x)"
  using tm_of [of x] by (simp add: tm_ok_def)

lemma local_time_CreateFile: "local_time (snd (CreateFile w name)) = local_time w"
  by (simp add: CreateFile_def split: option.splits)

lemma tm_of_minute_0304:
  "tm_of (minute_0304 t) = tm_2024\<lparr>tm_sec := (t - 1704164640) mod 60\<rparr>"
  by (simp add: minute_0304_def make_tm_inverse calendar_ok_def tm_2024_def)



lemma local_time_log_world: "local_time log_world = tm_2024"
  by (simp add: local_time_def localtime_def time_def log_world_def tm_of_minute_0304)
     (simp add: tm_2024_def)

lemma four_digit_year_tm_2024: "four_digit_year tm_2024"
  by (simp add: tm_2024_def four_digit_year_def)

lemma content_CreateFile: "content (snd (CreateFile w name)) p = content w p"
  by (simp add: CreateFile_def content_def split: option.splits)

lemma open_seek_write:
  "CreateFile w name = (hFile, w1) \<Longrightarrow>
   WriteFile w1 (SetFilePointer w1 hFile 0 None FILE_END) buf n = (w2, hFile2) \<Longrightarrow>
   CloseHandle w2 hFile2 = store_record w name (take n buf)"
  by (auto simp add: CreateFile_def SetFilePointer_def WriteFile_def CloseHandle_def
        store_record_def content_def Let_def split: if_splits option.splits)

lemma store_record_append:
  "length (content w name) < 4294967296 \<Longrightarrow> store_record w name r = append_record w name r"
  by (simp add: store_record_def append_record_def)

lemma store_record_closed: "\<not> can_open w name \<Longrightarrow> store_record w name r = w"
  by (simp add: store_record_def)

lemma WriteDebugInfoStr_eq:
  "WriteDebugInfoStr w name s = store_record w name (c_str s)"
  by (simp add: WriteDebugInfoStr_def Let_def open_seek_write take_strlen split: prod.splits)

lemma HexWrite_split:
  "DebugAngel_HexWrite w name pBuffer iSize sender =
     bindE (assemble_line (local_time w) pBuffer iSize sender)
       (\<lambda>line. Inr (store_record w name (c_str line)))"
proof -
  obtain hFile w1 where c: "CreateFile w name = (hFile, w1)"
    by (cases "CreateFile w name")
  have t: "local_time w1 = local_time w"
    using local_time_CreateFile [of w name] c by simp
  have io: "(case WriteFile w1 (SetFilePointer w1 hFile 0 None FILE_END) s (strlen s) of
              (w2, hFile2) \<Rightarrow> Inr (CloseHandle w2 hFile2))
            = (Inr (store_record w name (c_str s)) :: error + world)" for s
    using open_seek_write [OF c, of s "strlen s"]
    by (simp add: take_strlen split: prod.splits)
  show ?thesis
    by (simp add: DebugAngel_HexWrite_def assemble_line_def c t io
          GetCurrentTimeWrapped_eq bindE_def Let_def split: sum.splits del: strftime_text.simps)
qed

subsection \<open>The assembly of a hex-dump line\<close>

lemma length_CRLF: "length CRLF = 2"
  by (simp add: CRLF_def)

lemma select_logType_eq: "select_logType sender = Inr (direction_tag sender)"
  by (simp add: select_logType_def direction_tag_def strcpy_def strlen_def c_str_def NUL_def)

lemma strcat_clean:
  "NUL \<notin> set dst \<Longrightarrow> NUL \<notin> set src \<Longrightarrow>
   strcat name cap dst src =
     (if length dst + length src < cap then Inr (dst @ src) else Inl (BufferOverflow name))"
  by (simp add: strcat_def strlen_id c_str_id)

lemma hex_step:
  "wsprintf ''lpszTemp'' 16 ''0x%02X '' (unat (b::byte)) = Inr (hex_token b)"
  by (simp add: wsprintf_def wsprintf_text_token length_hex_token Let_def
        del: wsprintf_text.simps)

lemma hex_loop_eq:
  "nat (iSize - j) = k \<Longrightarrow> 0 \<le> j \<Longrightarrow> nat iSize \<le> length pBuffer \<Longrightarrow>
   NUL \<notin> set s \<Longrightarrow> length s < 1024 \<Longrightarrow>
   hex_loop pBuffer iSize j s =
     (if length s + 5 * k < 1024
      then Inr (s @ concat (map hex_token (drop (nat j) (take (nat iSize) pBuffer))))
      else Inl (BufferOverflow ''lpszStr''))"
proof (induction k arbitrary: j s)
  case 0
  then have "\<not> j < iSize" by simp
  moreover have "drop (nat j) (take (nat iSize) pBuffer) = []"
    using 0 by simp
  ultimately show ?case
    using 0 by (simp add: hex_loop.simps [of pBuffer iSize j s])
next
  case (Suc k)
  then have lt: "j < iSize" by simp
  then have idx: "nat j < length (take (nat iSize) pBuffer)"
    using Suc.prems by simp
  have rd: "read_byte pBuffer j = Inr (pBuffer ! nat j)"
    using idx Suc.prems by (simp add: read_byte_def)
  let ?tok = "hex_token (pBuffer ! nat j)"
  have dr: "drop (nat j) (take (nat iSize) pBuffer)
              = pBuffer ! nat j # drop (nat (j + 1)) (take (nat iSize) pBuffer)"
    using idx Suc.prems Cons_nth_drop_Suc [OF idx, symmetric]
    by (simp add: nat_add_distrib)
  show ?case
  proof (cases "length s + 5 < 1024")
    case True
    have sc: "strcat ''lpszStr'' 1024 s ?tok = Inr (s @ ?tok)"
      using True Suc.prems by (simp add: strcat_clean NUL_notin_hex_token length_hex_token)
    have ih: "hex_loop pBuffer iSize (j + 1) (s @ ?tok) =
        (if length (s @ ?tok) + 5 * k < 1024
         then Inr ((s @ ?tok) @ concat (map hex_token (drop (nat (j + 1)) (take (nat iSize) pBuffer))))
         else Inl (BufferOverflow ''lpszStr''))"
      using Suc.prems True
      by (intro Suc.IH) (simp_all add: NUL_notin_hex_token length_hex_token)
    show ?thesis
      using lt by (simp add: hex_loop.simps [of pBuffer iSize j s] rd hex_step sc ih dr
                     length_hex_token)
  next
    case False
    have sc: "strcat ''lpszStr'' 1024 s ?tok = Inl (BufferOverflow ''lpszStr'')"
      using False Suc.prems by (simp add: strcat_clean NUL_notin_hex_token length_hex_token)
    show ?thesis
      using lt False by (simp add: hex_loop.simps [of pBuffer iSize j s] rd hex_step sc)
  qed
qed

lemma assemble_line_eq:
  assumes "tm_ok t" and "nat iSize \<le> length pBuffer"
  shows "assemble_line t pBuffer iSize sender =
     (if nat iSize \<le> 198
      then Inr (hex_record t sender (take (nat iSize) pBuffer))
      else Inl (BufferOverflow ''lpszStr''))"
proof -
  let ?ts = "timestamp_layout t" and ?tag = "direction_tag sender"
  let ?body = "concat (map hex_token (take (nat iSize) pBuffer))"
  have t: "strftime 64 ''[%Y-%m-%d %H:%M:%S] '' t = Inr ?ts"
    using assms(1) by (simp add: strftime_def strftime_text_layout length_timestamp_layout Let_def
          del: strftime_text.simps)
  have s1: "strcat ''lpszStr'' 1024 [] ?ts = Inr ?ts"
    using assms(1) by (simp add: strcat_clean NUL_notin_timestamp_layout length_timestamp_layout)
  have len_tag: "length ?tag = 5" by (simp add: direction_tag_def)
  have s2: "strcat ''lpszStr'' 1024 ?ts ?tag = Inr (?ts @ ?tag)"
    using assms(1) by (simp add: strcat_clean NUL_notin_timestamp_layout NUL_notin_direction_tag
      length_timestamp_layout len_tag)
  have clean: "NUL \<notin> set (?ts @ ?tag)"
    using assms(1) by (simp add: NUL_notin_timestamp_layout NUL_notin_direction_tag)
  have lp: "hex_loop pBuffer iSize 0 (?ts @ ?tag) =
     (if nat iSize \<le> 199 then Inr (?ts @ ?tag @ ?body) else Inl (BufferOverflow ''lpszStr''))"
    using hex_loop_eq [of iSize 0 "nat iSize" pBuffer "?ts @ ?tag"] assms(2) clean
    by (simp add: length_timestamp_layout len_tag)
  have len_body: "length ?body = 5 * nat iSize"
    using assms(2) by (simp add: length_concat comp_def length_hex_token sum_list_triv)
  have clean_body: "NUL \<notin> set ?body"
    by (simp add: NUL_notin_hex_token)
  have s3: "strcat ''lpszStr'' 1024 (?ts @ ?tag @ ?body) CRLF =
     (if nat iSize \<le> 198 then Inr (?ts @ ?tag @ ?body @ CRLF) else Inl (BufferOverflow ''lpszStr''))"
    using clean clean_body
    by (subst strcat_clean)
       (auto simp add: NUL_notin_CRLF length_timestamp_layout len_tag len_body length_CRLF)
  show ?thesis
    by (simp add: assemble_line_def t s1 select_logType_eq s2 lp s3 bindE_def hex_record_def)
qed

subsection \<open>What one call and a sequence of calls do to the file\<close>

lemma HexWrite_eq:
  assumes "four_digit_year (local_time w)" and "nat iSize \<le> length pBuffer"
  shows "DebugAngel_HexWrite w name pBuffer iSize sender =
     (if nat iSize \<le> 198
      then Inr (store_record w name (hex_record (local_time w) sender (take (nat iSize) pBuffer)))
      else Inl (BufferOverflow ''lpszStr''))"
proof -
  have ok: "tm_ok (local_time w)"
    using assms(1) by (rule tm_ok_local_time)
  have "NUL \<notin> set (hex_record (local_time w) sender (take (nat iSize) pBuffer))"
    using ok
    by (simp add: hex_record_def NUL_notin_timestamp_layout NUL_notin_direction_tag
          NUL_notin_hex_token NUL_notin_CRLF)
  then show ?thesis
    by (simp add: HexWrite_split assemble_line_eq [OF ok assms(2)] bindE_def c_str_id)
qed

lemma HexWrite_append:
  assumes "four_digit_year (local_time w)" and "nat iSize \<le> length pBuffer"
    and "length (content w name) < 4294967296"
  shows "DebugAngel_HexWrite w name pBuffer iSize sender =
     (if nat iSize \<le> 198
      then Inr (append_record w name (hex_record (local_time w) sender (take (nat iSize) pBuffer)))
      else Inl (BufferOverflow ''lpszStr''))"
  using assms by (simp add: HexWrite_eq store_record_append)

lemma HexWrite_frame:
  "DebugAngel_HexWrite w name pBuffer iSize sender = Inr w' \<Longrightarrow>
   \<exists>line. w' = store_record w name line"
  by (auto simp add: HexWrite_split bindE_def split: sum.splits)

lemma Write_eq:
  "DebugAngel_Write wvsprintf w name fmt va =
     (if length (wvsprintf fmt va) < 1024
      then Inr (store_record w name (c_str (wvsprintf fmt va)))
      else Inl (BufferOverflow ''lpszBuffer''))"
  by (simp add: DebugAngel_Write_def WriteDebugInfoStr_eq bindE_def Let_def)

lemma content_append_record:
  "content (append_record w name r) name =
     (if can_open w name then content w name @ r else content w name)"
  by (simp add: append_record_def content_def)

lemma files_append_record_other:
  "p \<noteq> name \<Longrightarrow> files (append_record w name r) p = files w p"
  by (simp add: append_record_def)

lemma can_open_append_record: "can_open (append_record w name r) = can_open w"
  by (simp add: append_record_def)

lemma time_zone_append_record: "time_zone (append_record w name r) = time_zone w"
  by (simp add: append_record_def)

lemma perform_frame:
  assumes "perform wvsprintf w name c = Inr w'"
  shows "\<exists>r. w' = store_record w name r"
proof (cases c)
  case (StrCall s)
  then show ?thesis using assms by (auto simp add: WriteDebugInfoStr_eq)
next
  case (FormatCall fmt va)
  then show ?thesis using assms by (auto simp add: Write_eq split: if_splits)
next
  case (HexCall pBuffer iSize sender)
  then show ?thesis using assms by (auto dest: HexWrite_frame)
qed

lemma perform_record:
  assumes "perform wvsprintf (w\<lparr>clock := t\<rparr>) name c = Inr w'"
    and "well_formed_call (time_zone w) (t, c)"
    and "length (content w name) < 4294967296"
  shows "w' = append_record (w\<lparr>clock := t\<rparr>) name (record_of wvsprintf (time_zone w) (t, c))"
proof -
  have len: "length (content (w\<lparr>clock := t\<rparr>) name) < 4294967296"
    using assms(3) by (simp add: content_def)
  show ?thesis
  proof (cases c)
    case (StrCall s)
    then show ?thesis
      using assms(1) len by (simp add: WriteDebugInfoStr_eq store_record_append)
  next
    case (FormatCall fmt va)
    then show ?thesis
      using assms(1) len by (simp add: Write_eq store_record_append split: if_splits)
  next
    case (HexCall pBuffer iSize sender)
    then show ?thesis
      using assms(1,2) len
      by (simp add: HexWrite_append local_time_clock split: if_splits)
  qed
qed

lemma run_calls_content:
  "can_open w name \<Longrightarrow> \<forall>x \<in> set cs. well_formed_call (time_zone w) x \<Longrightarrow>
   length (content w name) + length (concat (map (record_of wvsprintf (time_zone w)) cs))
     < 4294967296 \<Longrightarrow>
   run_calls wvsprintf w name cs = Inr w' \<Longrightarrow>
   content w' name = content w name @ concat (map (record_of wvsprintf (time_zone w)) cs)"
proof (induction cs arbitrary: w)
  case Nil
  then show ?case by simp
next
  case (Cons x cs)
  obtain t c where x: "x = (t, c)" by (cases x)
  from Cons.prems x obtain w1 where
    p: "perform wvsprintf (w\<lparr>clock := t\<rparr>) name c = Inr w1" and
    r: "run_calls wvsprintf w1 name cs = Inr w'"
    by (auto simp add: bindE_def split: sum.splits)
  have len: "length (content w name) < 4294967296"
    using Cons.prems(3) by simp
  have w1: "w1 = append_record (w\<lparr>clock := t\<rparr>) name (record_of wvsprintf (time_zone w) (t, c))"
    using perform_record [OF p _ len] Cons.prems x by simp
  have o: "can_open w1 name"
    using Cons.prems w1 by (simp add: can_open_append_record)
  have z: "time_zone w1 = time_zone w"
    using w1 by (simp add: time_zone_append_record)
  have c1: "content w1 name = content w name @ record_of wvsprintf (time_zone w) (t, c)"
    using Cons.prems w1 by (simp add: content_append_record) (simp add: content_def)
  have len1: "length (content w1 name)
      + length (concat (map (record_of wvsprintf (time_zone w1)) cs)) < 4294967296"
    using Cons.prems(3) c1 x z by simp
  have wf1: "\<forall>x \<in> set cs. well_formed_call (time_zone w1) x"
    using Cons.prems(2) z by simp
  have "content w' name = content w1 name @ concat (map (record_of wvsprintf (time_zone w1)) cs)"
    using Cons.IH [OF o wf1 len1 r] .
  then show ?case using c1 x z by simp
qed

section \<open>The claims\<close>

text \<open>
  Claim C1. For every byte buffer \<open>B\<close> of length \<open>N\<close>, \<open>DebugAngel_HexWrite\<close> appends one
  record with exactly \<open>N\<close> tokens \<open>0xXX\<close>, one per byte, in order. The source assembles
  the record in \<open>char lpszStr[1024]\<close> with unchecked \<open>strcat\<close> calls: lemmas
  \<open>HexWrite_eq\<close> and \<open>hex_token_upper_case\<close> show that the record is written as claimed
  for \<open>N \<le> 198\<close>, and the theorem below evaluates the function on 199 bytes, where the
  terminator of the last \<open>strcat\<close> is written at index 1024, past the end of the array.
\<close>

theorem C1_hex_dump_of_199_bytes_overflows:
  "DebugAngel_HexWrite log_world ''log.txt'' (replicate 199 0x41) 199 1
     = Inl (BufferOverflow ''lpszStr'')"
  by (simp add: HexWrite_eq local_time_log_world four_digit_year_tm_2024)

text \<open>
  Claim C2. In \<open>DebugAngel_HexWrite\<close> the direction code 1 gives the tag \<open>C->S\<close> and every
  other integer gives \<open>S->C\<close>, each followed by one space; no direction value is rejected:
  whatever \<open>sender\<close> is, the call returns and the record carries the tag right after the
  timestamp.
\<close>

theorem C2_direction_tag:
  assumes "four_digit_year (local_time w)" and "nat iSize \<le> length pBuffer"
    and "nat iSize \<le> 198"
  shows "select_logType sender = Inr (if sender = 1 then ''C->S '' else ''S->C '') \<and>
         DebugAngel_HexWrite w name pBuffer iSize sender =
           Inr (store_record w name
                 (timestamp_layout (local_time w)
                    @ (if sender = 1 then ''C->S '' else ''S->C '')
                    @ concat (map hex_token (take (nat iSize) pBuffer)) @ CRLF)) \<and>
         (length (content w name) < 4294967296 \<longrightarrow>
            DebugAngel_HexWrite w name pBuffer iSize sender =
              Inr (append_record w name
                    (timestamp_layout (local_time w)
                       @ (if sender = 1 then ''C->S '' else ''S->C '')
                       @ concat (map hex_token (take (nat iSize) pBuffer)) @ CRLF)))"
  using assms
  by (simp add: HexWrite_eq store_record_append select_logType_eq hex_record_def
        direction_tag_def)

theorem C2_direction_tag_witness:
  "four_digit_year (local_time log_world) \<and> nat 1 \<le> length [0x41 :: byte] \<and> nat 1 \<le> 198 \<and>
   length (content log_world ''log.txt'') < 4294967296 \<and>
   select_logType 7 = Inr ''S->C '' \<and>
   DebugAngel_HexWrite log_world ''log.txt'' [0x41] 1 7 =
     Inr (log_world\<lparr>files := [''log.txt'' \<mapsto> ''old[2024-01-02 03:04:05] S->C 0x41 '' @ CRLF]\<rparr>)"
  using C2_direction_tag [of log_world 1 "[0x41]" 7 "''log.txt''"]
  by (simp add: local_time_log_world four_digit_year_tm_2024)
     (simp add: log_world_def tm_2024_def append_record_def store_record_def content_def
        timestamp_layout_def bracketed_stamp_def four_digits_def two_digits_def dec_digit_def
        hex_token_def upper_hex_digit_def)

text \<open>
  Claim C3. Every call of a write operation leaves the bytes already in the destination
  file as they are: the file is opened without truncation, the write position is moved to
  the end, and the call only appends one record. The source calls
  \<open>SetFilePointer(hFile, 0, NULL, FILE_END)\<close> and never reads its result. On a log that has
  grown to \<open>2\<^sup>3\<^sup>2\<close> bytes the end of the file does not fit the 32 bits this call has for
  the position: the call fails, the pointer stays at 0, and the write goes over the first
  bytes of the log, which keeps its length. The theorem evaluates both write operations on
  such a log. Lemmas \<open>WriteDebugInfoStr_eq\<close>, \<open>Write_eq\<close>, \<open>HexWrite_eq\<close> and
  \<open>store_record_append\<close> show that on a shorter file each call appends exactly its record.
\<close>

theorem C3_write_on_4GiB_log_overwrites_its_start:
  "length (content big_log_world ''log.txt'') = 4294967296 \<and>
   hd (content big_log_world ''log.txt'') = CHR ''a'' \<and>
   SetFilePointer (snd (CreateFile big_log_world ''log.txt''))
     (fst (CreateFile big_log_world ''log.txt'')) 0 None FILE_END = FileHandle ''log.txt'' 0 \<and>
   content (WriteDebugInfoStr big_log_world ''log.txt'' ''hello'') ''log.txt''
     = ''hello'' @ replicate 4294967291 (CHR ''a'') \<and>
   DebugAngel_HexWrite big_log_world ''log.txt'' [0x41] 1 1 =
     Inr (big_log_world\<lparr>files := [''log.txt'' \<mapsto>
            ''[2024-01-02 03:04:05] C->S 0x41 '' @ CRLF @ replicate 4294967262 (CHR ''a'')]\<rparr>)"
proof -
  have c: "content big_log_world ''log.txt'' = replicate 4294967296 (CHR ''a'')"
    by (simp add: big_log_world_def log_world_def content_def)
  have o: "can_open big_log_world ''log.txt''"
    by (simp add: big_log_world_def log_world_def)
  have t: "local_time big_log_world = tm_2024"
    using local_time_log_world by (simp add: big_log_world_def)
  have s: "SetFilePointer (snd (CreateFile big_log_world ''log.txt''))
     (fst (CreateFile big_log_world ''log.txt'')) 0 None FILE_END = FileHandle ''log.txt'' 0"
    by (simp add: CreateFile_def SetFilePointer_def big_log_world_def log_world_def content_def)
  have w: "content (WriteDebugInfoStr big_log_world ''log.txt'' ''hello'') ''log.txt''
     = ''hello'' @ replicate 4294967291 (CHR ''a'')"
    using o by (simp add: WriteDebugInfoStr_eq store_record_def c c_str_id NUL_def)
               (simp add: content_def)
  have h: "DebugAngel_HexWrite big_log_world ''log.txt'' [0x41] 1 1 =
     Inr (big_log_world\<lparr>files := [''log.txt'' \<mapsto>
            ''[2024-01-02 03:04:05] C->S 0x41 '' @ CRLF @ replicate 4294967262 (CHR ''a'')]\<rparr>)"
    using o
    by (simp add: HexWrite_eq t four_digit_year_tm_2024 store_record_def c hex_record_def
          direction_tag_def length_timestamp_layout length_hex_token length_CRLF)
       (simp add: big_log_world_def log_world_def tm_2024_def timestamp_layout_def
          bracketed_stamp_def four_digits_def two_digits_def dec_digit_def hex_token_def
          upper_hex_digit_def)
  show ?thesis
    using s w h by (simp add: c)
qed




text \<open>
  Claim C5. When the text that \<open>wvsprintf\<close> renders fits \<open>char lpszBuffer[1024]\<close> and the
  file opens, \<open>DebugAngel_Write\<close> appends that text and nothing else to the file: no
  timestamp, no direction tag, no line terminator. The text is the C string in the buffer,
  which is all of the rendered text when that holds no NUL character. The file is shorter
  than \<open>2\<^sup>3\<^sup>2\<close> bytes, so that the seek to its end succeeds.
\<close>

theorem C5_formatted_write_appends_rendered_text:
  assumes "length (wvsprintf lpszFormat va) < 1024" and "can_open w lpszFileName"
    and "length (content w lpszFileName) < 4294967296"
  shows "DebugAngel_Write wvsprintf w lpszFileName lpszFormat va =
           Inr (w\<lparr>files := (files w)(lpszFileName \<mapsto>
                  content w lpszFileName @ c_str (wvsprintf lpszFormat va))\<rparr>) \<and>
         (NUL \<notin> set (wvsprintf lpszFormat va) \<longrightarrow>
            c_str (wvsprintf lpszFormat va) = wvsprintf lpszFormat va)"
  using assms by (simp add: Write_eq store_record_append append_record_def c_str_id)

theorem C5_formatted_write_appends_rendered_text_witness:
  "length (plain_text ''hello'' ()) < 1024 \<and> can_open log_world ''log.txt'' \<and>
   length (content log_world ''log.txt'') < 4294967296 \<and>
   NUL \<notin> set (plain_text ''hello'' ()) \<and>
   DebugAngel_Write plain_text log_world ''log.txt'' ''hello'' () =
     Inr (log_world\<lparr>files := [''log.txt'' \<mapsto> ''oldhello'']\<rparr>)"
  using C5_formatted_write_appends_rendered_text [of plain_text "''hello''" "()" log_world "''log.txt''"]
  by (simp add: plain_text_def log_world_def content_def NUL_def)

text \<open>
  Claim C6. The hex dump of the bytes 0x41, 0x00, 0xFF with length 3 and direction 1, at
  local time 2024-01-02 03:04:05, appends exactly the line
  \<open>[2024-01-02 03:04:05] C->S 0x41 0x00 0xFF\<close>, a space, carriage return and line feed,
  to a file shorter than \<open>2\<^sup>3\<^sup>2\<close> bytes.
\<close>

theorem C6_hex_dump_scenario:
  assumes "local_time w = tm_2024" and "can_open w lpszFileName"
    and "length (content w lpszFileName) < 4294967296"
  shows "DebugAngel_HexWrite w lpszFileName [0x41, 0x00, 0xFF] 3 1 =
           Inr (w\<lparr>files := (files w)(lpszFileName \<mapsto>
                  content w lpszFileName
                    @ ''[2024-01-02 03:04:05] C->S 0x41 0x00 0xFF '' @ [CHR 0x0D, CHR 0x0A])\<rparr>)"
  using assms
  by (simp add: HexWrite_append four_digit_year_tm_2024 append_record_def hex_record_def
        direction_tag_def CRLF_def)
     (simp add: tm_2024_def timestamp_layout_def bracketed_stamp_def four_digits_def
        two_digits_def dec_digit_def hex_token_def upper_hex_digit_def)

theorem C6_hex_dump_scenario_witness:
  "local_time log_world = tm_2024 \<and> can_open log_world ''log.txt'' \<and>
   length (content log_world ''log.txt'') < 4294967296 \<and>
   DebugAngel_HexWrite log_world ''log.txt'' [0x41, 0x00, 0xFF] 3 1 =
     Inr (log_world\<lparr>files := [''log.txt'' \<mapsto>
            ''old[2024-01-02 03:04:05] C->S 0x41 0x00 0xFF '' @ [CHR 0x0D, CHR 0x0A]]\<rparr>)"
  using C6_hex_dump_scenario [of log_world "''log.txt''"]
  by (simp add: local_time_log_world) (simp add: log_world_def content_def)

text \<open>
  Claim C7. The hex dump of an empty buffer (length 0) with a direction other than 1
  appends the timestamp, the tag \<open>S->C\<close> with its space, and carriage return and line
  feed: no hex token. The file is shorter than \<open>2\<^sup>3\<^sup>2\<close> bytes.
\<close>

theorem C7_empty_hex_dump:
  assumes "four_digit_year (local_time w)" and "can_open w lpszFileName" and "sender \<noteq> 1"
    and "length (content w lpszFileName) < 4294967296"
  shows "DebugAngel_HexWrite w lpszFileName pBuffer 0 sender =
           Inr (w\<lparr>files := (files w)(lpszFileName \<mapsto>
                  content w lpszFileName @ timestamp_layout (local_time w) @ ''S->C ''
                    @ [CHR 0x0D, CHR 0x0A])\<rparr>)"
  using assms
  by (simp add: HexWrite_append append_record_def hex_record_def direction_tag_def CRLF_def)

theorem C7_empty_hex_dump_witness:
  "four_digit_year (local_time log_world) \<and> can_open log_world ''log.txt'' \<and> (2::int) \<noteq> 1 \<and>
   length (content log_world ''log.txt'') < 4294967296 \<and>
   DebugAngel_HexWrite log_world ''log.txt'' [] 0 2 =
     Inr (log_world\<lparr>files := [''log.txt'' \<mapsto>
            ''old[2024-01-02 03:04:05] S->C '' @ [CHR 0x0D, CHR 0x0A]]\<rparr>)"
  using C7_empty_hex_dump [of log_world "''log.txt''" 2 "[]"]
  by (simp add: local_time_log_world four_digit_year_tm_2024)
     (simp add: log_world_def tm_2024_def content_def timestamp_layout_def bracketed_stamp_def
        two_digits_def four_digits_def dec_digit_def)

text \<open>
  Claim C8. On a path that cannot be opened both write operations fail silently:
  \<open>CreateFile\<close> returns \<open>INVALID_HANDLE_VALUE\<close>, which no function inspects; the functions
  return to the caller with no error value, and the state they return is the state they
  were called in, so nothing is appended to any file.
\<close>

theorem C8_open_failure_is_silent:
  assumes "\<not> can_open w name"
  shows "WriteDebugInfoStr w name lpszToWrite = w \<and>
         (length (wvsprintf lpszFormat va) < 1024 \<longrightarrow>
            DebugAngel_Write wvsprintf w name lpszFormat va = Inr w) \<and>
         (four_digit_year (local_time w) \<and> nat iSize \<le> length pBuffer \<and> nat iSize \<le> 198 \<longrightarrow>
            DebugAngel_HexWrite w name pBuffer iSize sender = Inr w) \<and>
         (\<forall>c w'. perform wvsprintf w name c = Inr w' \<longrightarrow> w' = w) \<and>
         CreateFile w name = (INVALID_HANDLE_VALUE, w)"
proof -
  have a: "store_record w name r = w" for r
    using assms by (rule store_record_closed)
  have "\<forall>c w'. perform wvsprintf w name c = Inr w' \<longrightarrow> w' = w"
    using perform_frame [of wvsprintf w name] a by metis
  then show ?thesis
    using assms by (simp add: WriteDebugInfoStr_eq Write_eq HexWrite_eq a CreateFile_def)
qed

theorem C8_open_failure_is_silent_witness:
  "\<not> can_open log_world ''C:/locked.txt'' \<and>
   WriteDebugInfoStr log_world ''C:/locked.txt'' ''hello'' = log_world \<and>
   length (plain_text ''hello'' ()) < 1024 \<and>
   DebugAngel_Write plain_text log_world ''C:/locked.txt'' ''hello'' () = Inr log_world \<and>
   four_digit_year (local_time log_world) \<and> nat 1 \<le> length [0x41 :: byte] \<and> nat 1 \<le> 198 \<and>
   DebugAngel_HexWrite log_world ''C:/locked.txt'' [0x41] 1 1 = Inr log_world \<and>
   perform plain_text log_world ''C:/locked.txt'' (HexCall [0x41] 1 1) = Inr log_world \<and>
   CreateFile log_world ''C:/locked.txt'' = (INVALID_HANDLE_VALUE, log_world)"
proof -
  have n: "\<not> can_open log_world ''C:/locked.txt''"
    by (simp add: log_world_def)
  show ?thesis
    using C8_open_failure_is_silent [OF n, of "''hello''" plain_text "''hello''" "()" 1 "[0x41]" 1] n
    by (simp add: plain_text_def local_time_log_world four_digit_year_tm_2024)
qed

text \<open>
  Claim C9. Under sequential use, after \<open>N\<close> successful calls on one file, in any mix of
  the write operations, the file holds its prior contents followed by exactly the \<open>N\<close>
  records of the calls, in the order the calls were made. The file stays shorter than
  \<open>2\<^sup>3\<^sup>2\<close> bytes, so that every seek to its end succeeds.
\<close>

theorem C9_sequential_calls_append_in_order:
  assumes "can_open w name" and "\<forall>x \<in> set cs. well_formed_call (time_zone w) x"
    and "length (content w name) + length (concat (map (record_of wvsprintf (time_zone w)) cs))
           < 4294967296"
    and "run_calls wvsprintf w name cs = Inr w'"
  shows "content w' name
           = content w name @ concat (map (record_of wvsprintf (time_zone w)) cs)"
  using assms by (rule run_calls_content)

theorem C9_sequential_calls_append_in_order_witness:
  "can_open log_world ''log.txt'' \<and>
   well_formed_call (time_zone log_world) (1704164645, HexCall [0x41] 1 1 :: unit call) \<and>
   well_formed_call (time_zone log_world) (1704164645, FormatCall ''hello'' ()) \<and>
   well_formed_call (time_zone log_world) (1704164646, HexCall [] 0 2 :: unit call) \<and>
   length (content log_world ''log.txt'') + length (concat
         [''[2024-01-02 03:04:05] C->S 0x41 '' @ CRLF, ''hello'',
          ''[2024-01-02 03:04:06] S->C '' @ CRLF]) < 4294967296 \<and>
   run_calls plain_text log_world ''log.txt''
     [(1704164645, HexCall [0x41] 1 1), (1704164645, FormatCall ''hello'' ()),
      (1704164646, HexCall [] 0 2)]
     = Inr (log_world\<lparr>clock := 1704164646,
              files := [''log.txt'' \<mapsto>
                ''old'' @ (''[2024-01-02 03:04:05] C->S 0x41 '' @ CRLF) @ ''hello''
                  @ (''[2024-01-02 03:04:06] S->C '' @ CRLF)]\<rparr>) \<and>
   content (log_world\<lparr>clock := 1704164646,
              files := [''log.txt'' \<mapsto>
                ''old'' @ (''[2024-01-02 03:04:05] C->S 0x41 '' @ CRLF) @ ''hello''
                  @ (''[2024-01-02 03:04:06] S->C '' @ CRLF)]\<rparr>) ''log.txt''
     = content log_world ''log.txt'' @ concat
         [''[2024-01-02 03:04:05] C->S 0x41 '' @ CRLF, ''hello'',
          ''[2024-01-02 03:04:06] S->C '' @ CRLF]"
proof -
  let ?cs = "[(1704164645, HexCall [0x41] 1 1), (1704164645, FormatCall ''hello'' ()),
      (1704164646, HexCall [] 0 2)] :: (int \<times> unit call) list"
  let ?w' = "log_world\<lparr>clock := 1704164646,
              files := [''log.txt'' \<mapsto>
                ''old'' @ (''[2024-01-02 03:04:05] C->S 0x41 '' @ CRLF) @ ''hello''
                  @ (''[2024-01-02 03:04:06] S->C '' @ CRLF)]\<rparr>"
  have o: "can_open log_world ''log.txt''"
    by (simp add: log_world_def)
  have z: "time_zone log_world = minute_0304"
    by (simp add: log_world_def)
  have t5: "tm_of (minute_0304 1704164645) = tm_2024"
    and t6: "tm_of (minute_0304 1704164646) = tm_2024\<lparr>tm_sec := 6\<rparr>"
    by (simp_all add: tm_of_minute_0304 tm_2024_def)
  have y: "four_digit_year tm_2024" "four_digit_year (tm_2024\<lparr>tm_sec := 6\<rparr>)"
    by (simp_all add: tm_2024_def four_digit_year_def)
  have wf: "\<forall>x \<in> set ?cs. well_formed_call (time_zone log_world) x"
    using y by (simp add: z t5 t6)
  have recs: "map (record_of plain_text (time_zone log_world)) ?cs =
         [''[2024-01-02 03:04:05] C->S 0x41 '' @ CRLF, ''hello'',
          ''[2024-01-02 03:04:06] S->C '' @ CRLF]"
    by (simp add: z t5 t6 plain_text_def c_str_id NUL_def hex_record_def direction_tag_def)
       (simp add: tm_2024_def timestamp_layout_def bracketed_stamp_def four_digits_def
          two_digits_def dec_digit_def hex_token_def upper_hex_digit_def)
  have len: "length (content log_world ''log.txt'')
      + length (concat (map (record_of plain_text (time_zone log_world)) ?cs)) < 4294967296"
    unfolding recs by (simp add: log_world_def content_def length_CRLF)
  have f: "files log_world = [''log.txt'' \<mapsto> ''old'']"
    by (simp add: log_world_def)
  have r: "run_calls plain_text log_world ''log.txt'' ?cs = Inr ?w'"
    using y o
    by (simp add: bindE_def HexWrite_append Write_eq store_record_append plain_text_def
          hex_record_def direction_tag_def c_str_id NUL_def append_record_def content_def
          local_time_clock z t5 t6 f length_timestamp_layout length_hex_token length_CRLF)
       (simp add: log_world_def tm_2024_def timestamp_layout_def bracketed_stamp_def
          four_digits_def two_digits_def dec_digit_def hex_token_def upper_hex_digit_def)
  have wf1: "well_formed_call (time_zone log_world) (1704164645, HexCall [0x41] 1 1 :: unit call)"
    and wf2: "well_formed_call (time_zone log_world) (1704164645, FormatCall ''hello'' ())"
    and wf3: "well_formed_call (time_zone log_world) (1704164646, HexCall [] 0 2 :: unit call)"
    using wf by simp_all
  have c: "content ?w' ''log.txt'' = content log_world ''log.txt'' @ concat
         [''[2024-01-02 03:04:05] C->S 0x41 '' @ CRLF, ''hello'',
          ''[2024-01-02 03:04:06] S->C '' @ CRLF]"
    using C9_sequential_calls_append_in_order [OF o wf len r] unfolding recs .
  show ?thesis
    using o wf1 wf2 wf3 len [unfolded recs] r c by blast
qed

text \<open>
  Claim C10. \<open>DebugAngel_HexWrite\<close> assembles its line in \<open>char lpszStr[1024]\<close>. The line
  of a buffer of \<open>N\<close> bytes takes 22 + 5 + 5 * \<open>N\<close> + 2 characters and a terminator, which
  fit the array exactly when \<open>N \<le> 198\<close>: for \<open>N \<le> 198\<close> every write into \<open>lpszStr\<close> is in
  bounds and the call returns, and for \<open>N \<ge> 199\<close> a \<open>strcat\<close> writes past the end of
  \<open>lpszStr\<close>.
\<close>

theorem C10_lpszStr_bound:
  assumes "four_digit_year (local_time w)" and "iSize = int (length pBuffer)"
  shows "length (hex_record (local_time w) sender pBuffer) + 1
           = 22 + 5 + 5 * length pBuffer + 2 + 1 \<and>
         (length (hex_record (local_time w) sender pBuffer) + 1 \<le> 1024
            \<longleftrightarrow> length pBuffer \<le> 198) \<and>
         (length pBuffer \<le> 198 \<longrightarrow>
            DebugAngel_HexWrite w name pBuffer iSize sender
              = Inr (store_record w name (hex_record (local_time w) sender pBuffer))) \<and>
         (length pBuffer \<le> 198 \<and> length (content w name) < 4294967296 \<longrightarrow>
            DebugAngel_HexWrite w name pBuffer iSize sender
              = Inr (append_record w name (hex_record (local_time w) sender pBuffer))) \<and>
         (199 \<le> length pBuffer \<longrightarrow>
            DebugAngel_HexWrite w name pBuffer iSize sender = Inl (BufferOverflow ''lpszStr''))"
proof -
  have "length (concat (map hex_token pBuffer)) = 5 * length pBuffer"
    by (simp add: length_concat comp_def length_hex_token sum_list_triv)
  then have len: "length (hex_record (local_time w) sender pBuffer) = 29 + 5 * length pBuffer"
    by (simp add: hex_record_def length_timestamp_layout direction_tag_def length_CRLF)
  have "DebugAngel_HexWrite w name pBuffer iSize sender =
     (if length pBuffer \<le> 198
      then Inr (store_record w name (hex_record (local_time w) sender pBuffer))
      else Inl (BufferOverflow ''lpszStr''))"
    using assms HexWrite_eq [of w iSize pBuffer name sender] by simp
  then show ?thesis
    using len by (auto simp add: store_record_append)
qed

theorem C10_lpszStr_bound_witness:
  "four_digit_year (local_time log_world) \<and>
   length (content log_world ''log.txt'') < 4294967296 \<and>
   length (hex_record (local_time log_world) 1 (replicate 198 0x41)) + 1 = 1020 \<and>
   DebugAngel_HexWrite log_world ''log.txt'' (replicate 198 0x41) 198 1
     = Inr (append_record log_world ''log.txt''
              (hex_record (local_time log_world) 1 (replicate 198 0x41))) \<and>
   length (hex_record (local_time log_world) 1 (replicate 199 0x41)) + 1 = 1025 \<and>
   DebugAngel_HexWrite log_world ''log.txt'' (replicate 199 0x41) 199 1
     = Inl (BufferOverflow ''lpszStr'')"
proof -
  have t: "four_digit_year (local_time log_world)"
    by (simp add: local_time_log_world four_digit_year_tm_2024)
  have l: "length (content log_world ''log.txt'') < 4294967296"
    by (simp add: log_world_def content_def)
  show ?thesis
    using C10_lpszStr_bound [OF t, of 198 "replicate 198 0x41" 1 "''log.txt''"]
      C10_lpszStr_bound [OF t, of 199 "replicate 199 0x41" 1 "''log.txt''"] t l
    by (simp add: store_record_append)
qed

end
